theory Spec2Isabelle
  imports Main "HOL-Library.Char_ord" "HOL-Library.List_Lexorder" "HOL-Library.Product_Lexorder"
begin

section \<open>Strings\<close>

text \<open>
  A Python \<open>str\<close> is modelled as a \<open>string\<close>, read as ASCII text: the character with code
  \<open>n\<close> is the code point \<open>n\<close>. Characters are ordered by their code (\<open>Char_ord\<close>), lists
  lexicographically (\<open>List_Lexorder\<close>) and pairs lexicographically (\<open>Product_Lexorder\<close>), which
  is how Python compares \<open>str\<close> and \<open>tuple\<close> values. A \<open>dict\<close> is an association list in
  insertion order, read with \<open>map_of\<close>.
\<close>

type_synonym dict = "(string \<times> string) list"

datatype py_error = IndexError

text \<open>\<open>str.isspace\<close>, the class \<open>\s\<close> of \<open>re\<close> and the characters removed by \<open>str.strip()\<close>:
  on ASCII these are the codes 9 to 13 and 28 to 32.\<close>

definition is_space :: "char \<Rightarrow> bool" where
  "is_space c = ((CHR 0x09 \<le> c \<and> c \<le> CHR 0x0D) \<or> (CHR 0x1C \<le> c \<and> c \<le> CHR 0x20))"

text \<open>The class \<open>\d\<close>.\<close>

definition is_digit :: "char \<Rightarrow> bool" where
  "is_digit c = (CHR ''0'' \<le> c \<and> c \<le> CHR ''9'')"

text \<open>The class \<open>[a-z]\<close>.\<close>

definition is_lower_az :: "char \<Rightarrow> bool" where
  "is_lower_az c = (CHR ''a'' \<le> c \<and> c \<le> CHR ''z'')"

definition is_upper_az :: "char \<Rightarrow> bool" where
  "is_upper_az c = (CHR ''A'' \<le> c \<and> c \<le> CHR ''Z'')"

text \<open>The class \<open>\w\<close>: letters, digits and the underscore.\<close>

definition is_word :: "char \<Rightarrow> bool" where
  "is_word c = (is_lower_az c \<or> is_upper_az c \<or> is_digit c \<or> c = CHR ''_'')"

text \<open>\<open>str.lower\<close> on one character: an upper-case letter gets bit 5 set, which adds 32 to
  its code.\<close>

definition lower_char :: "char \<Rightarrow> char" where
  "lower_char c =
     (if is_upper_az c
      then Char (digit0 c) (digit1 c) (digit2 c) (digit3 c) (digit4 c) True (digit6 c) (digit7 c)
      else c)"

definition lower :: "string \<Rightarrow> string" where
  "lower s = map lower_char s"

text \<open>\<open>str.strip()\<close> with no argument.\<close>

definition py_strip :: "string \<Rightarrow> string" where
  "py_strip s = rev (dropWhile is_space (rev (dropWhile is_space s)))"

text \<open>\<open>str.split()\<close> with no argument: the maximal runs of characters that are not white
  space. The first argument is the word being read.\<close>

fun split_ws :: "string \<Rightarrow> string \<Rightarrow> string list" where
  "split_ws w [] = (if w = [] then [] else [w])"
| "split_ws w (c # cs) =
     (if is_space c then (if w = [] then split_ws [] cs else w # split_ws [] cs)
      else split_ws (w @ [c]) cs)"

definition py_split :: "string \<Rightarrow> string list" where
  "py_split s = split_ws [] s"

text \<open>\<open>s.startswith(p)\<close>, returning what follows the prefix.\<close>

fun strip_prefix :: "string \<Rightarrow> string \<Rightarrow> string option" where
  "strip_prefix [] s = Some s"
| "strip_prefix (p # ps) [] = None"
| "strip_prefix (p # ps) (c # cs) = (if p = c then strip_prefix ps cs else None)"

text \<open>\<open>int(ds)\<close> for a string of decimal digits; the value of a digit is its position in
  \<open>0123456789\<close>.\<close>

definition digit_val :: "char \<Rightarrow> int" where
  "digit_val c = int (length (takeWhile (\<lambda>d. d \<noteq> c) ''0123456789''))"

definition int_of_digits :: "string \<Rightarrow> int" where
  "int_of_digits ds = foldl (\<lambda>n c. 10 * n + digit_val c) 0 ds"

section \<open>The target sections\<close>

definition TARGET_SECTIONS :: "string list" where
  "TARGET_SECTIONS = [''item_1'', ''item_1a'', ''item_1b'', ''item_1c'', ''item_7'', ''item_7a'']"

section \<open>Canonical ordering\<close>

text \<open>The groups of \<open>(\d+)([a-z]?)\<close> matched at the start of a string: the longest run of
  digits, which must not be empty, and the lower-case letter after it, if there is one.\<close>

definition match_num_letter :: "string \<Rightarrow> (string \<times> string) option" where
  "match_num_letter s =
     (let ds = takeWhile is_digit s
      in if ds = [] then None
         else Some (ds, case dropWhile is_digit s of
                          [] \<Rightarrow> []
                        | c # _ \<Rightarrow> if is_lower_az c then [c] else []))"

text \<open>\<open>get_item_sort_key\<close>: \<open>re.match(r'item_(\d+)([a-z]?)', item_name)\<close> matches at the start
  of the name and does not look at what follows the match.\<close>

definition get_item_sort_key :: "string \<Rightarrow> int \<times> string" where
  "get_item_sort_key item_name =
     (case strip_prefix ''item_'' item_name of
        None \<Rightarrow> (999, [])
      | Some rest \<Rightarrow>
          (case match_num_letter rest of
             None \<Rightarrow> (999, [])
           | Some (num, letter) \<Rightarrow> (int_of_digits num, letter)))"

text \<open>The canonical order of section keys is the order of their sort keys.\<close>

definition key_less :: "string \<Rightarrow> string \<Rightarrow> bool" where
  "key_less a b = (get_item_sort_key a < get_item_sort_key b)"


text \<open>A well-formed section key in the words of the specification: \<open>item_\<close>, a number and
  at most one letter, with nothing after it.\<close>

definition well_formed_key :: "string \<Rightarrow> bool" where
  "well_formed_key k =
     (case strip_prefix ''item_'' k of
        None \<Rightarrow> False
      | Some rest \<Rightarrow>
          takeWhile is_digit rest \<noteq> [] \<and>
          (case dropWhile is_digit rest of
             [] \<Rightarrow> True
           | c # cs \<Rightarrow> is_lower_az c \<and> cs = []))"

section \<open>Boundary resolver\<close>

text \<open>\<open>xs[0]\<close> raises \<open>IndexError\<close> on an empty list.\<close>

definition first_item :: "'a list \<Rightarrow> py_error + 'a" where
  "first_item xs = (case xs of [] \<Rightarrow> Inl IndexError | x # _ \<Rightarrow> Inr x)"

text \<open>\<open>find_next_available_section\<close>. \<open>list.sort\<close> is stable, as \<open>sort_key\<close> is.\<close>

definition find_next_available_section ::
  "(string \<times> string) list \<Rightarrow> string \<Rightarrow> py_error + string option" where
  "find_next_available_section all_sections current_section =
     (let current_sort_key = get_item_sort_key current_section;
          next_sections =
            concat (map (\<lambda>(section_name, section_id).
                          let section_sort_key = get_item_sort_key section_name
                          in if section_sort_key > current_sort_key
                             then [(section_name, section_id, section_sort_key)] else [])
                        all_sections)
      in if next_sections \<noteq> []
         then (case first_item (sort_key (\<lambda>x. snd (snd x)) next_sections) of
                 Inl e \<Rightarrow> Inl e
               | Inr x \<Rightarrow> Inr (Some (fst (snd x))))
         else Inr None)"

section \<open>Extraction quality gate\<close>

text \<open>\<open>should_use_xbrl_fallback\<close>. The second argument is the list of target keys that
  discovery found.\<close>

definition should_use_xbrl_fallback :: "dict \<Rightarrow> string list \<Rightarrow> bool" where
  "should_use_xbrl_fallback extracted target_found =
     (if extracted = [] then True
      else
        let found_count =
              length (filter (\<lambda>section. case map_of extracted section of
                                           None \<Rightarrow> False
                                         | Some content \<Rightarrow> content \<noteq> [])
                             TARGET_SECTIONS)
        in if found_count \<le> length TARGET_SECTIONS div 2 then True
           else if list_ex (\<lambda>(section, content).
                              content \<noteq> [] \<and> length (py_split content) > 30000) extracted
                then True
                else False)"

text \<open>The number of target keys with content that is not empty.\<close>

definition found_count :: "dict \<Rightarrow> nat" where
  "found_count extracted =
     length (filter (\<lambda>section. case map_of extracted section of
                                  None \<Rightarrow> False
                                | Some content \<Rightarrow> content \<noteq> [])
                    TARGET_SECTIONS)"

definition word_count :: "string \<Rightarrow> nat" where
  "word_count content = length (py_split content)"

section \<open>Label normalizer\<close>

text \<open>\<open>re.sub(r'\s+', ' ', text)\<close>: every maximal run of white space becomes one space. The
  flag says that the character before was white space.\<close>

fun collapse_from :: "bool \<Rightarrow> string \<Rightarrow> string" where
  "collapse_from in_run [] = []"
| "collapse_from in_run (c # cs) =
     (if is_space c
      then (if in_run then collapse_from True cs else CHR '' '' # collapse_from True cs)
      else c # collapse_from False cs)"

definition collapse_ws :: "string \<Rightarrow> string" where
  "collapse_ws s = collapse_from False s"

text \<open>\<open>normalize_anchor_text\<close>. \<open>unicodedata.normalize('NFKD', text)\<close> leaves ASCII text as it
  is, so the first line of the source is the identity in this model.\<close>

definition nfkd :: "string \<Rightarrow> string" where
  "nfkd s = s"

definition normalize_anchor_text :: "string \<Rightarrow> string" where
  "normalize_anchor_text text0 =
     (let text1 = nfkd text0;
          text2 = map (\<lambda>c. if c = CHR 0xA0 then CHR '' '' else c) text1;
          text3 = filter (\<lambda>c. is_word c \<or> is_space c) (lower text2);
          text4 = py_strip (collapse_ws text3)
      in text4)"

section \<open>Section classifier\<close>

text \<open>\<open>item\s*(\d+)([a-z]?)\<close> matched at the start of a string. White space and digits are
  disjoint, and the letter is optional at the end of the pattern, so the greedy match is the
  only one.\<close>

definition match_item_here :: "string \<Rightarrow> (string \<times> string) option" where
  "match_item_here s =
     (case strip_prefix ''item'' s of
        None \<Rightarrow> None
      | Some rest \<Rightarrow> match_num_letter (dropWhile is_space rest))"

text \<open>\<open>re.search\<close>: the match at the leftmost position that has one.\<close>

fun search_item :: "string \<Rightarrow> (string \<times> string) option" where
  "search_item [] = None"
| "search_item (c # cs) =
     (case match_item_here (c # cs) of
        Some groups \<Rightarrow> Some groups
      | None \<Rightarrow> search_item cs)"

definition is_target_item_explicit :: "string \<Rightarrow> bool \<times> string" where
  "is_target_item_explicit text0 =
     (let normalized = normalize_anchor_text text0
      in case search_item normalized of
           Some (item_num, item_letter) \<Rightarrow> (True, ''item_'' @ item_num @ item_letter)
         | None \<Rightarrow> (False, []))"

definition SECTION_MAPPINGS :: "(string \<times> string list) list" where
  "SECTION_MAPPINGS =
     [(''item_1'', [''business'', ''our business'', ''the business'', ''overview'',
                    ''company overview'', ''general'', ''general development of business'',
                    ''description of business'']),
      (''item_1a'', [''risk factors'', ''risks'', ''principal risks'', ''key risks'']),
      (''item_1b'', [''unresolved staff comments'', ''unresolved sec staff comments'']),
      (''item_1c'', [''cybersecurity'', ''cyber security'', ''information security'',
                     ''security risks'', ''cybersecurity risk management'',
                     ''cybersecurity governance'', ''cybersecurity threats'']),
      (''item_2'', [''properties'', ''real estate'', ''facilities'']),
      (''item_3'', [''legal proceedings'', ''litigation'', ''legal matters'']),
      (''item_4'', [''mine safety disclosures'', ''mine safety'']),
      (''item_5'', [''market for registrant'', ''market for common equity'',
                    ''stockholder matters'']),
      (''item_6'', [''selected financial data'', ''selected consolidated financial data'']),
      (''item_7'', [''management'' @ [CHR 0x27] @ ''s discussion and analysis'', ''md&a'', ''mda'',
                    ''management discussion and analysis'', ''financial condition and results'',
                    ''management'' @ [CHR 0x27] @ ''s discussion'', ''results of operations'']),
      (''item_7a'', [''quantitative and qualitative disclosures about market risk'',
                     ''market risk'', ''quantitative disclosures'', ''market risk disclosures'']),
      (''item_8'', [''financial statements'', ''consolidated financial statements'',
                    ''financial statements and supplementary data'']),
      (''item_9'', [''changes in and disagreements'', ''accounting and financial disclosure'']),
      (''item_9a'', [''controls and procedures'', ''disclosure controls and procedures'']),
      (''item_9b'', [''other information''])]"

text \<open>\<open>p in s\<close> on strings.\<close>

fun py_in :: "string \<Rightarrow> string \<Rightarrow> bool" where
  "py_in p [] = (p = [])"
| "py_in p (c # cs) = (strip_prefix p (c # cs) \<noteq> None \<or> py_in p cs)"

text \<open>\<open>is_target_item_semantic\<close>: the first key of the table, in its order, one of whose
  phrases occurs in the normalized text.\<close>

definition is_target_item_semantic :: "string \<Rightarrow> bool \<times> string" where
  "is_target_item_semantic text0 =
     (let normalized = normalize_anchor_text text0
      in case find (\<lambda>(item_key, variations). list_ex (\<lambda>variation. py_in variation normalized) variations)
                   SECTION_MAPPINGS of
           Some (item_key, variations) \<Rightarrow> (True, item_key)
         | None \<Rightarrow> (False, []))"


text \<open>\<open>str(n)\<close> for a natural number.\<close>

definition digit_char :: "nat \<Rightarrow> char" where
  "digit_char d = ''0123456789'' ! d"

fun str_nat :: "nat \<Rightarrow> string" where
  "str_nat n = (if n < 10 then [digit_char n] else str_nat (n div 10) @ [digit_char (n mod 10)])"

section \<open>Documents\<close>

text \<open>
  The parsed document is the tree that \<open>BeautifulSoup\<close> builds: a tag has a name, a
  dictionary of attributes and a list of children, and a leaf is a string. The root is the
  document itself. A node of the tree is addressed by the path of child indices that leads
  to it from the root. The library operations that the program calls are modelled here:
  \<open>find_all\<close> and \<open>find\<close> go through the descendants of the root in document order and
  compare an attribute that is present with the value asked for, \<open>get_text\<close> joins the
  strings below a node, \<open>find_next_sibling()\<close> is the next sibling that is a tag, and \<open>==\<close> on
  tags compares name, attributes and children.
\<close>

datatype node = Tag string "(string \<times> string) list" "node list" | NavigableString string

type_synonym path = "nat list"

fun walk :: "path \<Rightarrow> node \<Rightarrow> (path \<times> node) list"
  and walk_list :: "path \<Rightarrow> nat \<Rightarrow> node list \<Rightarrow> (path \<times> node) list" where
  "walk p (NavigableString s) = [(p, NavigableString s)]"
| "walk p (Tag name attrs contents) = (p, Tag name attrs contents) # walk_list p 0 contents"
| "walk_list p i [] = []"
| "walk_list p i (c # cs) = walk (p @ [i]) c @ walk_list p (Suc i) cs"

definition descendants :: "node \<Rightarrow> (path \<times> node) list" where
  "descendants soup =
     (case soup of Tag name attrs contents \<Rightarrow> walk_list [] 0 contents | NavigableString s \<Rightarrow> [])"

fun node_at :: "path \<Rightarrow> node \<Rightarrow> node option" where
  "node_at [] n = Some n"
| "node_at (i # p) (Tag name attrs contents) =
     (if i < length contents then node_at p (contents ! i) else None)"
| "node_at (i # p) (NavigableString s) = None"

fun update_at :: "(node \<Rightarrow> node) \<Rightarrow> path \<Rightarrow> node \<Rightarrow> node" where
  "update_at f [] n = f n"
| "update_at f (i # p) (Tag name attrs contents) =
     Tag name attrs
       (if i < length contents then contents[i := update_at f p (contents ! i)] else contents)"
| "update_at f (i # p) (NavigableString s) = NavigableString s"

definition is_tag :: "node \<Rightarrow> bool" where
  "is_tag n = (case n of Tag name attrs contents \<Rightarrow> True | NavigableString s \<Rightarrow> False)"

definition tag_name :: "node \<Rightarrow> string" where
  "tag_name n = (case n of Tag name attrs contents \<Rightarrow> name | NavigableString s \<Rightarrow> [])"

text \<open>\<open>el.get(k)\<close>, with \<open>None\<close> for an attribute that is absent.\<close>

definition get_attr :: "node \<Rightarrow> string \<Rightarrow> string option" where
  "get_attr n k = (case n of Tag name attrs contents \<Rightarrow> map_of attrs k | NavigableString s \<Rightarrow> None)"

text \<open>\<open>el.get(k, "")\<close>.\<close>

definition get_attr_or_empty :: "node \<Rightarrow> string \<Rightarrow> string" where
  "get_attr_or_empty n k = (case get_attr n k of None \<Rightarrow> [] | Some v \<Rightarrow> v)"

text \<open>The truth value of \<open>el.get(k)\<close>: an attribute that is present and not empty.\<close>

definition attr_truthy :: "node \<Rightarrow> string \<Rightarrow> bool" where
  "attr_truthy n k = (case get_attr n k of None \<Rightarrow> False | Some v \<Rightarrow> v \<noteq> [])"

text \<open>\<open>d[k] = v\<close> on a dictionary.\<close>

fun dict_set :: "dict \<Rightarrow> string \<Rightarrow> string \<Rightarrow> dict" where
  "dict_set [] k v = [(k, v)]"
| "dict_set ((k', v') # d) k v = (if k' = k then (k, v) # d else (k', v') # dict_set d k v)"

text \<open>\<open>el[k] = v\<close> for the element at a path.\<close>

definition set_attr :: "node \<Rightarrow> path \<Rightarrow> string \<Rightarrow> string \<Rightarrow> node" where
  "set_attr soup p k v =
     update_at (\<lambda>n. case n of Tag name attrs contents \<Rightarrow> Tag name (dict_set attrs k v) contents
                     | NavigableString s \<Rightarrow> NavigableString s) p soup"

fun strings_of :: "node \<Rightarrow> string list"
  and strings_of_list :: "node list \<Rightarrow> string list" where
  "strings_of (NavigableString s) = [s]"
| "strings_of (Tag name attrs contents) = strings_of_list contents"
| "strings_of_list [] = []"
| "strings_of_list (c # cs) = strings_of c @ strings_of_list cs"

text \<open>\<open>sep.join(xs)\<close>.\<close>

fun py_join :: "string \<Rightarrow> string list \<Rightarrow> string" where
  "py_join sep [] = []"
| "py_join sep [x] = x"
| "py_join sep (x # y # ys) = x @ sep @ py_join sep (y # ys)"

text \<open>\<open>el.get_text(separator=sep, strip=True)\<close>: the strings below the element, each
  stripped, the empty ones left out.\<close>

definition get_text_strip :: "string \<Rightarrow> node \<Rightarrow> string" where
  "get_text_strip sep n = py_join sep (filter (\<lambda>s. s \<noteq> []) (map py_strip (strings_of n)))"

text \<open>\<open>soup.get_text()\<close>.\<close>

definition get_text :: "node \<Rightarrow> string" where
  "get_text n = concat (strings_of n)"

text \<open>\<open>soup.find_all(...)\<close> and \<open>soup.find(...)\<close> for a condition on tags.\<close>

definition find_all :: "(node \<Rightarrow> bool) \<Rightarrow> node \<Rightarrow> (path \<times> node) list" where
  "find_all P soup = filter (\<lambda>(p, n). is_tag n \<and> P n) (descendants soup)"

definition find_first :: "(node \<Rightarrow> bool) \<Rightarrow> node \<Rightarrow> (path \<times> node) option" where
  "find_first P soup = (case find_all P soup of [] \<Rightarrow> None | x # xs \<Rightarrow> Some x)"

text \<open>Equality of dictionaries and of nodes.\<close>

definition dict_eq :: "dict \<Rightarrow> dict \<Rightarrow> bool" where
  "dict_eq a b = (\<forall>k \<in> set (map fst a) \<union> set (map fst b). map_of a k = map_of b k)"

fun node_eq :: "node \<Rightarrow> node \<Rightarrow> bool"
  and nodes_eq :: "node list \<Rightarrow> node list \<Rightarrow> bool" where
  "node_eq (Tag name attrs contents) (Tag name' attrs' contents') =
     (name = name' \<and> dict_eq attrs attrs' \<and> nodes_eq contents contents')"
| "node_eq (Tag name attrs contents) (NavigableString s') = False"
| "node_eq (NavigableString s) (Tag name' attrs' contents') = False"
| "node_eq (NavigableString s) (NavigableString s') = (s = s')"
| "nodes_eq [] [] = True"
| "nodes_eq [] (y # ys) = False"
| "nodes_eq (x # xs) [] = False"
| "nodes_eq (x # xs) (y # ys) = (node_eq x y \<and> nodes_eq xs ys)"

text \<open>The paths of the siblings after a node that are tags, in order: what repeated calls
  of \<open>find_next_sibling()\<close> return. The root has no sibling.\<close>

definition following_siblings :: "node \<Rightarrow> path \<Rightarrow> path list" where
  "following_siblings soup p =
     (if p = [] then []
      else case node_at (butlast p) soup of
             Some (Tag name attrs contents) \<Rightarrow>
               map (\<lambda>j. butlast p @ [j])
                   (filter (\<lambda>j. is_tag (contents ! j)) [Suc (last p) ..< length contents])
           | Some (NavigableString s) \<Rightarrow> []
           | None \<Rightarrow> [])"

section \<open>Anchor discovery\<close>

text \<open>\<open>href.strip("#")\<close>.\<close>

definition strip_hash :: "string \<Rightarrow> string" where
  "strip_hash s =
     rev (dropWhile (\<lambda>c. c = CHR ''#'') (rev (dropWhile (\<lambda>c. c = CHR ''#'') s)))"

text \<open>The body of the loop over the links, shared by \<open>extract_all_section_anchors\<close> and
  \<open>extract_target_anchors\<close>, which differ in what they print. The state is the set \<open>seen\<close>
  and the list of anchors.\<close>

definition anchor_step :: "string set \<times> (string \<times> string) list \<Rightarrow> node \<Rightarrow> string set \<times> (string \<times> string) list" where
  "anchor_step st a =
     (let seen = fst st; all_sections = snd st;
          href = py_strip (get_attr_or_empty a ''href'')
      in if strip_prefix ''#'' href = None then st
         else
           let label_raw = get_text_strip '' '' a
           in if label_raw = [] then st
              else
                let (is_explicit, item_key) = is_target_item_explicit label_raw
                in if is_explicit \<and> item_key \<notin> seen
                   then (insert item_key seen, all_sections @ [(item_key, strip_hash href)])
                   else
                     let (is_semantic, item_key) = is_target_item_semantic label_raw
                     in if is_semantic \<and> item_key \<notin> seen
                        then (insert item_key seen, all_sections @ [(item_key, strip_hash href)])
                        else st)"

definition scan_anchors :: "node list \<Rightarrow> (string \<times> string) list" where
  "scan_anchors anchors = snd (foldl anchor_step ({}, []) anchors)"

text \<open>\<open>soup.find_all("a", href=True)\<close>.\<close>

definition link_tags :: "node \<Rightarrow> node list" where
  "link_tags soup = map snd (find_all (\<lambda>n. tag_name n = ''a'' \<and> get_attr n ''href'' \<noteq> None) soup)"

text \<open>The body of the loop of \<open>extract_sections_by_text_search\<close>. The state is the document,
  which the loop changes, the list \<open>found_sections\<close> and the set \<open>seen\<close>.\<close>

definition record_section ::
  "node \<times> (string \<times> string) list \<times> string set \<Rightarrow> path \<Rightarrow> node \<Rightarrow> string \<Rightarrow>
   node \<times> (string \<times> string) list \<times> string set" where
  "record_section st p element item_key =
     (let soup = fst st; found_sections = fst (snd st); seen = snd (snd st);
          element_id = ''section_'' @ item_key @ ''_'' @ str_nat (length found_sections)
      in if \<not> attr_truthy element ''id'' \<and> \<not> attr_truthy element ''name''
         then (set_attr soup p ''id'' element_id,
               found_sections @ [(item_key, element_id)], insert item_key seen)
         else (soup,
               found_sections @ [(item_key,
                  if attr_truthy element ''id'' then get_attr_or_empty element ''id''
                  else get_attr_or_empty element ''name'')],
               insert item_key seen))"

definition text_search_step ::
  "node \<times> (string \<times> string) list \<times> string set \<Rightarrow> path \<Rightarrow>
   node \<times> (string \<times> string) list \<times> string set" where
  "text_search_step st p =
     (case node_at p (fst st) of
        None \<Rightarrow> st
      | Some element \<Rightarrow>
          let seen = snd (snd st);
              text0 = get_text_strip '' '' element
          in if text0 = [] \<or> length text0 > 200 then st
             else
               let (is_explicit, item_key) = is_target_item_explicit text0
               in if is_explicit \<and> item_key \<notin> seen
                  then record_section st p element item_key
                  else
                    let (is_semantic, item_key) = is_target_item_semantic text0
                    in if is_semantic \<and> item_key \<notin> seen
                       then record_section st p element item_key
                       else st)"

definition header_tags :: "string list" where
  "header_tags = [''h1'', ''h2'', ''h3'', ''h4'', ''h5'', ''h6'', ''p'', ''div'', ''span'', ''td'', ''th'']"

text \<open>\<open>extract_sections_by_text_search\<close> returns the anchors; the document it leaves behind
  is the second component.\<close>

definition scan_elements :: "node \<Rightarrow> path list \<Rightarrow> node \<times> (string \<times> string) list \<times> string set" where
  "scan_elements soup all_elements = foldl text_search_step (soup, [], {}) all_elements"

definition extract_sections_by_text_search :: "node \<Rightarrow> (string \<times> string) list \<times> node" where
  "extract_sections_by_text_search soup =
     (let all_elements = map fst (find_all (\<lambda>n. tag_name n \<in> set header_tags) soup);
          st = scan_elements soup all_elements
      in (fst (snd st), fst st))"

definition extract_all_section_anchors :: "node \<Rightarrow> (string \<times> string) list \<times> node" where
  "extract_all_section_anchors soup =
     (let all_sections = scan_anchors (link_tags soup);
          r = (if all_sections = [] then extract_sections_by_text_search soup
               else (all_sections, soup))
      in (sort_key (\<lambda>x. get_item_sort_key (fst x)) (fst r), snd r))"

definition extract_target_anchors :: "node \<Rightarrow> (string \<times> string) list \<times> node" where
  "extract_target_anchors soup =
     (let results = scan_anchors (link_tags soup)
      in if results = [] then extract_sections_by_text_search soup else (results, soup))"

section \<open>Content extractor\<close>

text \<open>The lookups of \<open>find_section_content_advanced\<close> for the start element: by \<open>id\<close>, then
  by the \<open>name\<close> of a link, then by the \<open>name\<close> of any element, each first as written and
  then without regard to case.\<close>

definition attr_is :: "string \<Rightarrow> string \<Rightarrow> node \<Rightarrow> bool" where
  "attr_is k v n = (get_attr n k = Some v)"

definition attr_is_nocase :: "string \<Rightarrow> string \<Rightarrow> node \<Rightarrow> bool" where
  "attr_is_nocase k v n = (get_attr n k \<noteq> None \<and> lower (get_attr_or_empty n k) = lower v)"

definition or_else :: "'a option \<Rightarrow> 'a option \<Rightarrow> 'a option" where
  "or_else a b = (case a of None \<Rightarrow> b | Some x \<Rightarrow> Some x)"

definition resolve_target :: "node \<Rightarrow> string \<Rightarrow> (path \<times> node) option" where
  "resolve_target soup target_id =
     or_else (find_first (attr_is ''id'' target_id) soup)
    (or_else (find_first (attr_is_nocase ''id'' target_id) soup)
    (or_else (find_first (\<lambda>n. tag_name n = ''a'' \<and> attr_is ''name'' target_id n) soup)
    (or_else (find_first (\<lambda>n. tag_name n = ''a'' \<and> attr_is_nocase ''name'' target_id n) soup)
    (or_else (find_first (attr_is ''name'' target_id) soup)
             (find_first (attr_is_nocase ''name'' target_id) soup)))))"

text \<open>The lookups for the stop element, which the source tries in another order.\<close>

definition resolve_next :: "node \<Rightarrow> string \<Rightarrow> (path \<times> node) option" where
  "resolve_next soup next_target_id =
     or_else (find_first (attr_is ''id'' next_target_id) soup)
    (or_else (find_first (\<lambda>n. tag_name n = ''a'' \<and> attr_is ''name'' next_target_id n) soup)
    (or_else (find_first (attr_is ''name'' next_target_id) soup)
    (or_else (find_first (attr_is_nocase ''id'' next_target_id) soup)
             (find_first (attr_is_nocase ''name'' next_target_id) soup))))"

text \<open>The text of an element, kept when it has more than 10 characters.\<close>

definition keep_text :: "node \<Rightarrow> string list" where
  "keep_text current =
     (let text0 = get_text_strip '' '' current
      in if text0 \<noteq> [] \<and> length text0 > 10 then [text0] else [])"

definition is_node :: "node \<Rightarrow> node option \<Rightarrow> bool" where
  "is_node current next_el = (case next_el of None \<Rightarrow> False | Some n \<Rightarrow> node_eq current n)"

text \<open>\<open>while current and current != next_el\<close> over the siblings that follow.\<close>

fun sibling_walk :: "node \<Rightarrow> node option \<Rightarrow> path list \<Rightarrow> string list" where
  "sibling_walk soup next_el [] = []"
| "sibling_walk soup next_el (q # qs) =
     (case node_at q soup of
        None \<Rightarrow> []
      | Some current \<Rightarrow>
          if is_node current next_el then []
          else keep_text current @ sibling_walk soup next_el qs)"

text \<open>The loop of \<open>find_section_content_text_based\<close>, which also stops at an element whose
  short text is classified as a section header.\<close>

fun text_walk :: "node \<Rightarrow> node \<Rightarrow> node option \<Rightarrow> path list \<Rightarrow> string list" where
  "text_walk soup target_element next_target_element [] = []"
| "text_walk soup target_element next_target_element (q # qs) =
     (case node_at q soup of
        None \<Rightarrow> []
      | Some current \<Rightarrow>
          if is_node current next_target_element then []
          else
            let current_text = get_text_strip '' '' current
            in if current_text \<noteq> [] \<and> length current_text < 200 \<and>
                  (fst (is_target_item_explicit current_text) \<or>
                   fst (is_target_item_semantic current_text)) \<and>
                  \<not> node_eq current target_element
               then []
               else keep_text current @ text_walk soup target_element next_target_element qs)"

definition blank_line :: string where
  "blank_line = [CHR 0x0A, CHR 0x0A]"

definition find_section_content_text_based ::
  "node \<Rightarrow> path \<times> node \<Rightarrow> node option \<Rightarrow> string" where
  "find_section_content_text_based soup target next_target_element =
     (let p = fst target; target_element = snd target;
          chain = (if following_siblings soup p = [] \<and> p \<noteq> []
                   then following_siblings soup (butlast p)
                   else following_siblings soup p);
          collected_text = text_walk soup target_element next_target_element chain
      in py_strip (py_join blank_line collected_text))"

definition find_section_content_advanced :: "node \<Rightarrow> string \<Rightarrow> string option \<Rightarrow> string" where
  "find_section_content_advanced soup target_id next_target_id =
     (case resolve_target soup target_id of
        None \<Rightarrow> []
      | Some (p, target_el) \<Rightarrow>
          let next_el =
                (case next_target_id of
                   None \<Rightarrow> None
                 | Some i \<Rightarrow> if i = [] then None else map_option snd (resolve_next soup i))
          in if strip_prefix ''section_'' target_id \<noteq> None
             then find_section_content_text_based soup (p, target_el) next_el
             else
               let start =
                     (if tag_name target_el = ''a'' \<and> attr_truthy target_el ''name''
                      then (if get_text_strip [] target_el = [] then following_siblings soup p
                            else p # following_siblings soup p)
                      else following_siblings soup p);
                   collected1 = sibling_walk soup next_el start;
                   collected2 =
                     (if collected1 = [] \<and> tag_name target_el = ''a'' \<and> p \<noteq> []
                      then sibling_walk soup next_el (following_siblings soup (butlast p))
                      else collected1);
                   collected3 =
                     (if collected2 = [] \<and> tag_name target_el \<noteq> ''a''
                      then (let text0 = get_text_strip '' '' target_el
                            in if text0 \<noteq> [] \<and> length text0 > 50 then [text0] else [])
                      else collected2);
                   collected4 =
                     (if collected3 = [] \<and> p \<noteq> []
                      then sibling_walk soup next_el (following_siblings soup (butlast p))
                      else collected3)
               in py_strip (py_join blank_line collected4))"

text \<open>The loop of \<open>extract_div_text_blocks\<close> over the anchors found; an exception of the
  boundary resolver ends it.\<close>

fun blocks_loop ::
  "node \<Rightarrow> (string \<times> string) list \<Rightarrow> dict \<Rightarrow> (string \<times> string) list \<Rightarrow> py_error + dict" where
  "blocks_loop soup all_sections extracted [] = Inr extracted"
| "blocks_loop soup all_sections extracted ((label, div_id) # target_ids) =
     (if label \<notin> set TARGET_SECTIONS then blocks_loop soup all_sections extracted target_ids
      else
        case find_next_available_section all_sections label of
          Inl e \<Rightarrow> Inl e
        | Inr next_boundary_id \<Rightarrow>
            let full_text = find_section_content_advanced soup div_id next_boundary_id
            in if full_text \<noteq> []
               then blocks_loop soup all_sections (dict_set extracted label full_text) target_ids
               else blocks_loop soup all_sections extracted target_ids)"

definition extract_div_text_blocks ::
  "node \<Rightarrow> (string \<times> string) list \<Rightarrow> py_error + dict \<times> node" where
  "extract_div_text_blocks soup target_ids =
     (if target_ids = [] then Inr ([], soup)
      else
        let r = extract_all_section_anchors soup;
            all_sections = fst r; soup1 = snd r
        in case blocks_loop soup1 all_sections [] target_ids of
             Inl e \<Rightarrow> Inl e
           | Inr extracted \<Rightarrow> Inr (extracted, soup1))"

section \<open>Regular expressions of the pattern fallback\<close>

text \<open>
  The patterns of \<open>XBRLSectionParser\<close> are sequences of single characters and character
  classes, some of them optional or repeated, the assertions \<open>^\<close>, \<open>$\<close> and \<open>\b\<close>, and a
  negative lookahead. The matcher below is the backtracking matcher of \<open>re\<close> on such
  sequences: a repetition takes as many characters as it can and gives them back one by one
  when the rest of the pattern fails.
\<close>

datatype atom = Lit char | Space | Digit | Ranges "(char \<times> char) list" | OneOf string

datatype item = One atom | Star atom | Plus atom | Opt atom | WordB | Bol | Eol | NotAhead "item list"

definition upper_char :: "char \<Rightarrow> char" where
  "upper_char c =
     (if is_lower_az c
      then Char (digit0 c) (digit1 c) (digit2 c) (digit3 c) (digit4 c) False (digit6 c) (digit7 c)
      else c)"

text \<open>Whether a character matches an atom. With \<open>re.IGNORECASE\<close> the character is taken in
  lower case, and a class also accepts it in upper case.\<close>

definition in_ranges :: "(char \<times> char) list \<Rightarrow> char \<Rightarrow> bool" where
  "in_ranges rs c = list_ex (\<lambda>(lo, hi). lo \<le> c \<and> c \<le> hi) rs"

definition atom_matches :: "bool \<Rightarrow> atom \<Rightarrow> char \<Rightarrow> bool" where
  "atom_matches ignorecase a c =
     (case a of
        Lit x \<Rightarrow> if ignorecase then lower_char c = lower_char x else c = x
      | Space \<Rightarrow> is_space c
      | Digit \<Rightarrow> is_digit c
      | Ranges rs \<Rightarrow>
          if ignorecase then in_ranges rs (lower_char c) \<or> in_ranges rs (upper_char (lower_char c))
          else in_ranges rs c
      | OneOf cs \<Rightarrow>
          if ignorecase then lower_char c \<in> set cs \<or> upper_char (lower_char c) \<in> set cs
          else c \<in> set cs)"

text \<open>\<open>\b\<close>: exactly one of the characters before and after the position is a word
  character; the ends of the text count as not a word character.\<close>

definition at_word_boundary :: "char option \<Rightarrow> string \<Rightarrow> bool" where
  "at_word_boundary prev s =
     ((case prev of None \<Rightarrow> False | Some c \<Rightarrow> is_word c) \<noteq>
      (case s of [] \<Rightarrow> False | c # cs \<Rightarrow> is_word c))"

text \<open>\<open>rmatch ignorecase pattern prev s\<close> matches the pattern at the start of \<open>s\<close>, where
  \<open>prev\<close> is the character before \<open>s\<close> in the text, and returns what is left of \<open>s\<close> after
  the match.\<close>

fun rmatch :: "bool \<Rightarrow> item list \<Rightarrow> char option \<Rightarrow> string \<Rightarrow> string option" where
  "rmatch ic [] prev s = Some s"
| "rmatch ic (One a # r) prev [] = None"
| "rmatch ic (One a # r) prev (c # cs) =
     (if atom_matches ic a c then rmatch ic r (Some c) cs else None)"
| "rmatch ic (Opt a # r) prev [] = rmatch ic r prev []"
| "rmatch ic (Opt a # r) prev (c # cs) =
     (if atom_matches ic a c
      then (case rmatch ic r (Some c) cs of
              Some rest \<Rightarrow> Some rest
            | None \<Rightarrow> rmatch ic r prev (c # cs))
      else rmatch ic r prev (c # cs))"
| "rmatch ic (Star a # r) prev [] = rmatch ic r prev []"
| "rmatch ic (Star a # r) prev (c # cs) =
     (if atom_matches ic a c
      then (case rmatch ic (Star a # r) (Some c) cs of
              Some rest \<Rightarrow> Some rest
            | None \<Rightarrow> rmatch ic r prev (c # cs))
      else rmatch ic r prev (c # cs))"
| "rmatch ic (Plus a # r) prev [] = None"
| "rmatch ic (Plus a # r) prev (c # cs) =
     (if atom_matches ic a c then rmatch ic (Star a # r) (Some c) cs else None)"
| "rmatch ic (WordB # r) prev s = (if at_word_boundary prev s then rmatch ic r prev s else None)"
| "rmatch ic (Bol # r) prev s = (if prev = None then rmatch ic r prev s else None)"
| "rmatch ic (Eol # r) prev s =
     (if s = [] \<or> s = [CHR 0x0A] then rmatch ic r prev s else None)"
| "rmatch ic (NotAhead la # r) prev s =
     (case rmatch ic la prev s of Some rest \<Rightarrow> None | None \<Rightarrow> rmatch ic r prev s)"

text \<open>\<open>re.finditer\<close>: the matches from left to right as pairs of start and end offset, each
  search starting where the match before ended. \<open>i\<close> is the offset of \<open>s\<close> in the text and
  \<open>skip\<close> the number of characters still inside the last match. No pattern of the program
  matches the empty string.\<close>

fun finditer_from :: "bool \<Rightarrow> item list \<Rightarrow> nat \<Rightarrow> nat \<Rightarrow> char option \<Rightarrow> string \<Rightarrow> (nat \<times> nat) list" where
  "finditer_from ic r i skip prev [] =
     (if skip = 0 \<and> rmatch ic r prev [] \<noteq> None then [(i, i)] else [])"
| "finditer_from ic r i skip prev (c # cs) =
     (if skip > 0 then finditer_from ic r (Suc i) (skip - 1) (Some c) cs
      else case rmatch ic r prev (c # cs) of
             None \<Rightarrow> finditer_from ic r (Suc i) 0 (Some c) cs
           | Some rest \<Rightarrow>
               (i, i + (Suc (length cs) - length rest)) #
               finditer_from ic r (Suc i) (Suc (length cs) - length rest - 1) (Some c) cs)"

definition finditer :: "bool \<Rightarrow> item list \<Rightarrow> string \<Rightarrow> (nat \<times> nat) list" where
  "finditer ic r s = finditer_from ic r 0 0 None s"

text \<open>\<open>re.search(...)\<close> as a truth value.\<close>

definition re_search :: "bool \<Rightarrow> item list \<Rightarrow> string \<Rightarrow> bool" where
  "re_search ic r s = (finditer ic r s \<noteq> [])"

text \<open>\<open>re.sub(pattern, repl, s)\<close>.\<close>

fun re_sub_from :: "bool \<Rightarrow> item list \<Rightarrow> string \<Rightarrow> nat \<Rightarrow> char option \<Rightarrow> string \<Rightarrow> string" where
  "re_sub_from ic r repl skip prev [] = []"
| "re_sub_from ic r repl skip prev (c # cs) =
     (if skip > 0 then re_sub_from ic r repl (skip - 1) (Some c) cs
      else case rmatch ic r prev (c # cs) of
             None \<Rightarrow> c # re_sub_from ic r repl 0 (Some c) cs
           | Some rest \<Rightarrow>
               if length rest = Suc (length cs) then c # re_sub_from ic r repl 0 (Some c) cs
               else repl @ re_sub_from ic r repl (Suc (length cs) - length rest - 1) (Some c) cs)"

definition re_sub :: "bool \<Rightarrow> item list \<Rightarrow> string \<Rightarrow> string \<Rightarrow> string" where
  "re_sub ic r repl s = re_sub_from ic r repl 0 None s"

text \<open>\<open>s[a:b]\<close> for offsets that are not negative.\<close>

definition slice :: "string \<Rightarrow> nat \<Rightarrow> nat \<Rightarrow> string" where
  "slice s a b = take (b - a) (drop a s)"

definition lit :: "string \<Rightarrow> item list" where
  "lit s = map (\<lambda>c. One (Lit c)) s"

definition opt_space :: "item list" where
  "opt_space = [Star Space]"

definition letter_a_c :: atom where
  "letter_a_c = Ranges [(CHR ''a'', CHR ''c'')]"

section \<open>Pattern fallback extractor\<close>

text \<open>The \<open>patterns\<close> of \<open>section_mapping\<close>, in its order.\<close>

definition section_mapping :: "(string \<times> item list list) list" where
  "section_mapping =
     [(''item_1'',
         [lit ''item'' @ opt_space @ lit ''1'' @ [WordB, NotAhead (opt_space @ [One letter_a_c])],
          lit ''business'' @ opt_space @ [Eol],
          lit ''item'' @ opt_space @ lit ''1'' @ opt_space @ lit ''.'' @ opt_space @ lit ''business'']),
      (''item_1a'',
         [lit ''item'' @ opt_space @ lit ''1a'' @ [WordB],
          lit ''risk'' @ opt_space @ lit ''factors'',
          lit ''item'' @ opt_space @ lit ''1'' @ opt_space @ lit ''a'' @ opt_space @ lit ''.'' @ opt_space @ lit ''risk'']),
      (''item_1b'',
         [lit ''item'' @ opt_space @ lit ''1b'' @ [WordB],
          lit ''unresolved'' @ opt_space @ lit ''staff'' @ opt_space @ lit ''comments'',
          lit ''item'' @ opt_space @ lit ''1'' @ opt_space @ lit ''b'' @ opt_space @ lit ''.'' @ opt_space @ lit ''unresolved'']),
      (''item_1c'',
         [lit ''item'' @ opt_space @ lit ''1c'' @ [WordB],
          lit ''cybersecurity'',
          lit ''item'' @ opt_space @ lit ''1'' @ opt_space @ lit ''c'' @ opt_space @ lit ''.'' @ opt_space @ lit ''cybersecurity'']),
      (''item_7'',
         [lit ''item'' @ opt_space @ lit ''7'' @ [WordB, NotAhead (opt_space @ lit ''a'')],
          lit ''management'' @ [Opt (Lit (CHR 0x27))] @ lit ''s'' @ opt_space @ lit ''discussion'' @ opt_space @
            lit ''and'' @ opt_space @ lit ''analysis'',
          lit ''md&a'',
          lit ''item'' @ opt_space @ lit ''7'' @ opt_space @ lit ''.'' @ opt_space @ lit ''management'']),
      (''item_7a'',
         [lit ''item'' @ opt_space @ lit ''7a'' @ [WordB],
          lit ''quantitative'' @ opt_space @ lit ''and'' @ opt_space @ lit ''qualitative'' @ opt_space @ lit ''disclosures'',
          lit ''market'' @ opt_space @ lit ''risk'',
          lit ''item'' @ opt_space @ lit ''7'' @ opt_space @ lit ''a'' @ opt_space @ lit ''.'' @ opt_space @ lit ''quantitative''])]"

definition header_indicators :: "item list list" where
  "header_indicators =
     [lit ''item'' @ opt_space @ [Plus Digit, Opt letter_a_c] @ opt_space @ lit ''.'',
      [Bol] @ opt_space @ lit ''item'' @ opt_space @ [Plus Digit, Opt letter_a_c] @ opt_space,
      lit ''part'' @ opt_space @ [Plus (OneOf ''iv'')] @ opt_space @ lit ''item'' @ opt_space @ [Plus Digit, Opt letter_a_c]]"

text \<open>\<open>_is_section_header\<close>; the matched text, its second argument, is not used.\<close>

definition is_section_header :: "string \<Rightarrow> string \<Rightarrow> bool" where
  "is_section_header context0 match_text =
     list_ex (\<lambda>indicator. re_search True indicator context0) header_indicators"

text \<open>The truth value of \<open>start_pos\<close>, which is \<open>None\<close> or an offset: offset 0 is false.\<close>

definition truthy_pos :: "nat option \<Rightarrow> bool" where
  "truthy_pos start_pos = (case start_pos of None \<Rightarrow> False | Some n \<Rightarrow> n \<noteq> 0)"

text \<open>The loop over the matches of one pattern: the start of the first match that the
  header check accepts, or \<open>start_pos\<close> as it was. Subtraction of natural numbers stops at
  0, which is the \<open>max(0, match.start() - 100)\<close> of the source.\<close>

fun match_loop :: "string \<Rightarrow> nat option \<Rightarrow> (nat \<times> nat) list \<Rightarrow> nat option" where
  "match_loop all_text start_pos [] = start_pos"
| "match_loop all_text start_pos ((match_start, match_end) # matches) =
     (let context_start = match_start - 100;
          context_end = min (length all_text) (match_end + 100);
          context0 = slice all_text context_start context_end
      in if is_section_header context0 (slice all_text match_start match_end)
         then Some match_start
         else match_loop all_text start_pos matches)"

text \<open>The loop over the patterns of one key.\<close>

fun pattern_loop :: "string \<Rightarrow> nat option \<Rightarrow> item list list \<Rightarrow> nat option" where
  "pattern_loop all_text start_pos [] = start_pos"
| "pattern_loop all_text start_pos (pattern # patterns) =
     (let matches = finditer True pattern all_text
      in if matches \<noteq> []
         then (let start_pos' = match_loop all_text start_pos matches
               in if truthy_pos start_pos' then start_pos'
                  else pattern_loop all_text start_pos' patterns)
         else pattern_loop all_text start_pos patterns)"

text \<open>The first loop of \<open>find_section_boundaries\<close>: the keys with a start offset that counts
  as true, with \<open>None\<close> for the end.\<close>

definition section_starts :: "string \<Rightarrow> (string \<times> nat \<times> nat option) list" where
  "section_starts all_text =
     concat (map (\<lambda>(section_id, patterns).
                    case pattern_loop all_text None patterns of
                      None \<Rightarrow> []
                    | Some start_pos \<Rightarrow>
                        if truthy_pos (Some start_pos) then [(section_id, (start_pos, None))]
                        else [])
                 section_mapping)"

text \<open>The second loop: in the order of the sorted pairs of start offset and key, the end of
  a section is the start of the next one, and the end of the last one is the length of the
  text.\<close>

fun assign_ends :: "nat \<Rightarrow> (nat \<times> string) list \<Rightarrow> (string \<times> nat \<times> nat option) list" where
  "assign_ends n [] = []"
| "assign_ends n [(start_pos, section_id)] = [(section_id, (start_pos, Some n))]"
| "assign_ends n ((start_pos, section_id) # (next_pos, next_id) # rest) =
     (section_id, (start_pos, Some next_pos)) # assign_ends n ((next_pos, next_id) # rest)"

definition find_section_boundaries_text :: "string \<Rightarrow> (string \<times> nat \<times> nat option) list" where
  "find_section_boundaries_text all_text =
     (let boundaries = section_starts all_text;
          section_positions = sort (map (\<lambda>(section_id, pos). (fst pos, section_id)) boundaries);
          ends = assign_ends (length all_text) section_positions
      in map (\<lambda>(section_id, pos).
                (section_id, case map_of ends section_id of Some pos' \<Rightarrow> pos' | None \<Rightarrow> pos))
             boundaries)"

definition find_section_boundaries :: "node \<Rightarrow> (string \<times> nat \<times> nat option) list" where
  "find_section_boundaries soup = find_section_boundaries_text (get_text soup)"

definition entity_pattern :: "item list" where
  "entity_pattern =
     [One (Lit (CHR ''&'')), Plus (Ranges [(CHR ''a'', CHR ''z''), (CHR ''A'', CHR ''Z'')]),
      One (Lit (CHR '';''))]"

definition clean_text :: "string \<Rightarrow> string" where
  "clean_text text0 = py_strip (re_sub False entity_pattern '' '' (collapse_ws text0))"

definition extract_section_content :: "node \<Rightarrow> string \<Rightarrow> nat \<Rightarrow> nat option \<Rightarrow> string" where
  "extract_section_content soup section_id start_pos end_pos =
     (let full_text = get_text soup;
          section_text = (case end_pos of
                            None \<Rightarrow> drop start_pos full_text
                          | Some e \<Rightarrow> if truthy_pos (Some e) then slice full_text start_pos e
                                      else drop start_pos full_text)
      in clean_text section_text)"

fun xbrl_loop :: "node \<Rightarrow> (string \<times> nat \<times> nat option) list \<Rightarrow> dict \<Rightarrow> string list \<Rightarrow> dict" where
  "xbrl_loop soup boundaries extracted [] = extracted"
| "xbrl_loop soup boundaries extracted (section_id # rest) =
     (case map_of boundaries section_id of
        None \<Rightarrow> xbrl_loop soup boundaries extracted rest
      | Some (start_pos, end_pos) \<Rightarrow>
          let content = extract_section_content soup section_id start_pos end_pos
          in if content \<noteq> []
             then xbrl_loop soup boundaries (dict_set extracted section_id content) rest
             else xbrl_loop soup boundaries extracted rest)"

definition parse_10k_filing_xbrl :: "node \<Rightarrow> dict" where
  "parse_10k_filing_xbrl soup =
     xbrl_loop soup (find_section_boundaries soup) [] TARGET_SECTIONS"

section \<open>The main flow\<close>

text \<open>What \<open>main\<close> writes to the output file. The URL, the document that was fetched from it
  and the time stamp are inputs of the model; the result is \<open>None\<close> when nothing is
  written.\<close>

record extraction_result =
  extraction_method :: string
  extraction_timestamp :: string
  source_url :: string
  sections :: dict

definition main :: "string \<Rightarrow> string \<Rightarrow> node \<Rightarrow> py_error + extraction_result option" where
  "main url now soup0 =
     (if url = [] then Inr None
      else
        let r = extract_target_anchors soup0;
            toc_targets = fst r; soup = snd r;
            target_found = filter (\<lambda>label. label \<in> set TARGET_SECTIONS) (map fst toc_targets)
        in case (if toc_targets \<noteq> [] then extract_div_text_blocks soup toc_targets
                 else Inr ([], soup)) of
             Inl e \<Rightarrow> Inl e
           | Inr (extracted0, soup1) \<Rightarrow>
               let extracted =
                     (if should_use_xbrl_fallback extracted0 target_found
                      then parse_10k_filing_xbrl soup1
                      else extracted0)
               in if extracted \<noteq> []
                  then Inr (Some \<lparr>extraction_method =
                                     (if should_use_xbrl_fallback extracted target_found
                                      then ''xbrl_fallback'' else ''toc_anchor''),
                                   extraction_timestamp = now,
                                   source_url = url,
                                   sections = extracted\<rparr>)
                  else Inr None)"

section \<open>Notions used in the proofs\<close>




section \<open>Properties of the quality gate\<close>

lemma py_split_Nil: "py_split [] = []"
  by (simp add: py_split_def)

lemma length_TARGET_SECTIONS: "length TARGET_SECTIONS = 6"
  by (simp add: TARGET_SECTIONS_def)

lemma gate_cases:
  "should_use_xbrl_fallback extracted tf \<longleftrightarrow>
     extracted = [] \<or> found_count extracted \<le> 3 \<or>
     (\<exists>(section, content) \<in> set extracted. word_count content > 30000)"
proof -
  have "(\<exists>(section, content) \<in> set extracted. content \<noteq> [] \<and> length (py_split content) > 30000) \<longleftrightarrow>
        (\<exists>(section, content) \<in> set extracted. word_count content > 30000)"
  proof
    assume "\<exists>(section, content) \<in> set extracted. content \<noteq> [] \<and> length (py_split content) > 30000"
    then show "\<exists>(section, content) \<in> set extracted. word_count content > 30000"
      by (auto simp: word_count_def)
  next
    assume "\<exists>(section, content) \<in> set extracted. word_count content > 30000"
    then obtain sec content where
      m: "(sec, content) \<in> set extracted" and w: "length (py_split content) > 30000"
      by (auto simp: word_count_def)
    from w have "content \<noteq> []"
      using py_split_Nil by fastforce
    with m w show "\<exists>(section, content) \<in> set extracted. content \<noteq> [] \<and> length (py_split content) > 30000"
      by blast
  qed
  then show ?thesis
    unfolding should_use_xbrl_fallback_def found_count_def Let_def length_TARGET_SECTIONS list_ex_iff
    by (simp add: case_prod_unfold)
qed



text \<open>
  C10: the decision of the gate does not depend on its second input, the target keys found
  by discovery.
\<close>

theorem quality_gate_ignores_target_found:
  "should_use_xbrl_fallback extracted tf1 = should_use_xbrl_fallback extracted tf2"
  by (simp add: should_use_xbrl_fallback_def)

section \<open>Properties of the canonical ordering and the boundary resolver\<close>

lemma hd_insort_key:
  "hd (insort_key f x ys) = (if ys = [] \<or> f x \<le> f (hd ys) then x else hd ys)"
  by (cases ys) auto

lemma sort_key_Nil_iff: "sort_key f xs = [] \<longleftrightarrow> xs = []"
  by (metis length_0_conv length_sort)

lemma hd_sort_key_split:
  "xs \<noteq> [] \<Longrightarrow>
   \<exists>pre x post. xs = pre @ x # post \<and> hd (sort_key f xs) = x \<and>
     (\<forall>y \<in> set xs. f x \<le> f y) \<and> (\<forall>y \<in> set pre. f y \<noteq> f x)"
proof (induction xs)
  case Nil
  then show ?case by simp
next
  case (Cons a xs)
  show ?case
  proof (cases "xs = []")
    case True
    then have "a # xs = [] @ a # [] \<and> hd (sort_key f (a # xs)) = a \<and>
       (\<forall>y \<in> set (a # xs). f a \<le> f y) \<and> (\<forall>y \<in> set []. f y \<noteq> f a)"
      by simp
    then show ?thesis by blast
  next
    case False
    with Cons.IH obtain pre x post where
      s: "xs = pre @ x # post" and h: "hd (sort_key f xs) = x" and
      m: "\<forall>y \<in> set xs. f x \<le> f y" and p: "\<forall>y \<in> set pre. f y \<noteq> f x"
      by blast
    have ne: "sort_key f xs \<noteq> []"
      using False by (simp add: sort_key_Nil_iff)
    show ?thesis
    proof (cases "f a \<le> f x")
      case True
      have "a # xs = [] @ a # xs \<and> hd (sort_key f (a # xs)) = a \<and>
         (\<forall>y \<in> set (a # xs). f a \<le> f y) \<and> (\<forall>y \<in> set []. f y \<noteq> f a)"
        using True h m ne by (auto simp: hd_insort_key)
      then show ?thesis by blast
    next
      case False
      have "a # xs = (a # pre) @ x # post \<and> hd (sort_key f (a # xs)) = x \<and>
         (\<forall>y \<in> set (a # xs). f x \<le> f y) \<and> (\<forall>y \<in> set (a # pre). f y \<noteq> f x)"
        using False h m p s ne by (auto simp: hd_insort_key)
      then show ?thesis by blast
    qed
  qed
qed

lemma next_sections_filter:
  "concat (map (\<lambda>(section_name, section_id).
                  if k < get_item_sort_key section_name
                  then [(section_name, section_id, get_item_sort_key section_name)] else [])
               all_sections)
   = map (\<lambda>(n, i). (n, i, get_item_sort_key n))
       (filter (\<lambda>(n, i). k < get_item_sort_key n) all_sections)"
  by (induction all_sections) auto

lemma resolver_unfold:
  "find_next_available_section all_sections cur =
     (case sort_key (\<lambda>x. snd (snd x))
             (map (\<lambda>(n, i). (n, i, get_item_sort_key n))
                (filter (\<lambda>(n, i). get_item_sort_key cur < get_item_sort_key n) all_sections)) of
        [] \<Rightarrow> Inr None
      | x # _ \<Rightarrow> Inr (Some (fst (snd x))))"
  unfolding find_next_available_section_def Let_def next_sections_filter first_item_def
  by (auto simp: sort_key_Nil_iff split: list.splits)

lemma filter_eq_append_ConsD:
  "filter P ys = us @ x # vs \<Longrightarrow> \<exists>pre post. ys = pre @ x # post \<and> filter P pre = us \<and> P x"
proof (induction ys arbitrary: us)
  case Nil
  then show ?case by simp
next
  case (Cons y ys)
  show ?case
  proof (cases "P y")
    case False
    with Cons.prems have "filter P ys = us @ x # vs" by simp
    from Cons.IH [OF this] obtain pre post where
      "ys = pre @ x # post" "filter P pre = us" "P x" by blast
    with False have "y # ys = (y # pre) @ x # post \<and> filter P (y # pre) = us \<and> P x"
      by simp
    then show ?thesis by blast
  next
    case True
    show ?thesis
    proof (cases us)
      case Nil
      with True Cons.prems have "y # ys = [] @ x # ys \<and> filter P [] = us \<and> P x"
        by simp
      then show ?thesis by blast
    next
      case (Cons u us')
      with True Cons.prems have u: "u = y" and "filter P ys = us' @ x # vs"
        by simp_all
      from Cons.IH [OF this(2)] obtain pre post where
        "ys = pre @ x # post" "filter P pre = us'" "P x" by blast
      with True u Cons have "y # ys = (y # pre) @ x # post \<and> filter P (y # pre) = us \<and> P x"
        by simp
      then show ?thesis by blast
    qed
  qed
qed

lemma resolver_some:
  assumes ex: "\<exists>(n, r) \<in> set all_sections. get_item_sort_key cur < get_item_sort_key n"
  shows "\<exists>pre name ref post. all_sections = pre @ (name, ref) # post \<and>
           find_next_available_section all_sections cur = Inr (Some ref) \<and>
           get_item_sort_key cur < get_item_sort_key name \<and>
           (\<forall>(n, r) \<in> set all_sections.
              get_item_sort_key cur < get_item_sort_key n \<longrightarrow> get_item_sort_key name \<le> get_item_sort_key n) \<and>
           (\<forall>(n, r) \<in> set pre. get_item_sort_key n \<noteq> get_item_sort_key name)"
proof -
  let ?k = "get_item_sort_key cur"
  let ?P = "\<lambda>(n, i). ?k < get_item_sort_key n"
  let ?g = "\<lambda>(n, i). (n, i, get_item_sort_key n)"
  let ?f = "\<lambda>x :: string \<times> string \<times> int \<times> string. snd (snd x)"
  let ?ns = "map ?g (filter ?P all_sections)"
  have ne: "?ns \<noteq> []"
    using ex by (auto simp: filter_empty_conv)
  from hd_sort_key_split [OF ne, of ?f] obtain pre3 x post3 where
    s3: "?ns = pre3 @ x # post3" and h3: "hd (sort_key ?f ?ns) = x" and
    m3: "\<forall>y \<in> set ?ns. ?f x \<le> ?f y" and p3: "\<forall>y \<in> set pre3. ?f y \<noteq> ?f x"
    by blast
  from s3 obtain us vs where
    f: "filter ?P all_sections = us @ vs" and pre3: "pre3 = map ?g us" and xv: "x # post3 = map ?g vs"
    by (auto simp: map_eq_append_conv)
  from xv obtain y vs' where vs: "vs = y # vs'" and x: "x = ?g y"
    by (cases vs) auto
  from f vs have "filter ?P all_sections = us @ y # vs'" by simp
  from filter_eq_append_ConsD [OF this] obtain pre post where
    a: "all_sections = pre @ y # post" and fp: "filter ?P pre = us" and Py: "?P y"
    by blast
  obtain name ref where y: "y = (name, ref)" by (cases y)
  have snz: "sort_key ?f ?ns \<noteq> []"
    using ne by (simp add: sort_key_Nil_iff)
  have res: "find_next_available_section all_sections cur = Inr (Some ref)"
    using snz h3 x y unfolding resolver_unfold
    by (auto split: list.splits)
  have gt: "?k < get_item_sort_key name"
    using Py y by simp
  have minimal: "\<forall>(n, r) \<in> set all_sections. ?k < get_item_sort_key n \<longrightarrow> get_item_sort_key name \<le> get_item_sort_key n"
  proof (clarify)
    fix n r assume "(n, r) \<in> set all_sections" "?k < get_item_sort_key n"
    then have "?g (n, r) \<in> set ?ns" by auto
    with m3 have "?f x \<le> ?f (?g (n, r))" by blast
    then show "get_item_sort_key name \<le> get_item_sort_key n"
      using x y by simp
  qed
  have first: "\<forall>(n, r) \<in> set pre. get_item_sort_key n \<noteq> get_item_sort_key name"
  proof (clarify)
    fix n r assume in_pre: "(n, r) \<in> set pre" and eq: "get_item_sort_key n = get_item_sort_key name"
    with gt have "?P (n, r)" by simp
    with in_pre fp have "(n, r) \<in> set us" by auto
    then have "?g (n, r) \<in> set pre3" using pre3 by auto
    with p3 have "?f (?g (n, r)) \<noteq> ?f x" by blast
    then show False using eq x y by simp
  qed
  from a y res gt minimal first show ?thesis by blast
qed

lemma resolver_none:
  assumes "\<not> (\<exists>(n, r) \<in> set all_sections. get_item_sort_key cur < get_item_sort_key n)"
  shows "find_next_available_section all_sections cur = Inr None"
proof -
  have "filter (\<lambda>(n, i). get_item_sort_key cur < get_item_sort_key n) all_sections = []"
    using assms by (auto simp: filter_empty_conv)
  then show ?thesis
    unfolding resolver_unfold by simp
qed

lemmas sk_defs = get_item_sort_key_def match_num_letter_def is_digit_def is_lower_az_def int_of_digits_def digit_val_def

lemma lower_az_not_digit: "is_lower_az c \<Longrightarrow> \<not> is_digit c"
proof -
  have "CHR ''9'' < CHR ''a''" by simp
  then show "is_lower_az c \<Longrightarrow> \<not> is_digit c"
    unfolding is_lower_az_def is_digit_def by (meson leD order_trans less_le_trans)
qed

lemma strip_prefix_append: "strip_prefix p (p @ s) = Some s"
  by (induction p) auto




lemma strip_prefix_Some: "strip_prefix p s = Some r \<Longrightarrow> s = p @ r"
  by (induction p s rule: strip_prefix.induct) (auto split: if_splits)


lemma well_formed_decomp:
  "well_formed_key k \<longleftrightarrow>
     (\<exists>ds l. k = ''item_'' @ ds @ l \<and> ds \<noteq> [] \<and> (\<forall>d \<in> set ds. is_digit d) \<and>
        (l = [] \<or> (\<exists>c. l = [c] \<and> is_lower_az c)))"
proof
  assume "well_formed_key k"
  then obtain rest where r: "strip_prefix ''item_'' k = Some rest"
    and t: "takeWhile is_digit rest \<noteq> []"
    and d: "case dropWhile is_digit rest of [] \<Rightarrow> True | c # cs \<Rightarrow> is_lower_az c \<and> cs = []"
    by (auto simp: well_formed_key_def split: option.splits)
  let ?ds = "takeWhile is_digit rest" and ?l = "dropWhile is_digit rest"
  have "k = ''item_'' @ ?ds @ ?l"
    using strip_prefix_Some [OF r] by simp
  moreover have "\<forall>d \<in> set ?ds. is_digit d"
    by (auto dest: set_takeWhileD)
  moreover have "?l = [] \<or> (\<exists>c. ?l = [c] \<and> is_lower_az c)"
    using d by (auto split: list.splits)
  ultimately show "\<exists>ds l. k = ''item_'' @ ds @ l \<and> ds \<noteq> [] \<and> (\<forall>d \<in> set ds. is_digit d) \<and>
        (l = [] \<or> (\<exists>c. l = [c] \<and> is_lower_az c))"
    using t by blast
next
  assume "\<exists>ds l. k = ''item_'' @ ds @ l \<and> ds \<noteq> [] \<and> (\<forall>d \<in> set ds. is_digit d) \<and>
        (l = [] \<or> (\<exists>c. l = [c] \<and> is_lower_az c))"
  then obtain ds l where k: "k = ''item_'' @ ds @ l" and a: "ds \<noteq> []" "\<forall>d \<in> set ds. is_digit d"
     "l = [] \<or> (\<exists>c. l = [c] \<and> is_lower_az c)" by blast
  have nd: "l = [] \<or> \<not> is_digit (hd l)"
    using a(3) lower_az_not_digit by auto
  have t: "takeWhile is_digit (ds @ l) = ds"
    using a(2) nd by (cases l) (auto simp: takeWhile_append2)
  have d: "dropWhile is_digit (ds @ l) = l"
    using a(2) nd by (cases l) (auto simp: dropWhile_append2)
  have "strip_prefix ''item_'' k = Some (ds @ l)"
    unfolding k by (rule strip_prefix_append)
  then show "well_formed_key k"
    using t d a by (auto simp: well_formed_key_def)
qed

text \<open>
  C3: the boundary resolver returns the reference of the first anchor of the catalog whose key
  is the least of the keys that come strictly after the target key in canonical order, and
  returns none when no key of the catalog comes after the target key. For the catalog
  \<open>item_1\<close>, \<open>item_1a\<close>, \<open>item_7\<close> the target \<open>item_1\<close> gives the reference of
  \<open>item_1a\<close> and the target \<open>item_7\<close> gives none.
\<close>

theorem boundary_resolver_nearest:
  "(\<not> (\<exists>(n, r) \<in> set all_sections. key_less current n) \<longrightarrow>
      find_next_available_section all_sections current = Inr None)
   \<and> ((\<exists>(n, r) \<in> set all_sections. key_less current n) \<longrightarrow>
      (\<exists>pre name ref post.
         all_sections = pre @ (name, ref) # post \<and>
         find_next_available_section all_sections current = Inr (Some ref) \<and>
         key_less current name \<and>
         (\<forall>(n, r) \<in> set all_sections. key_less current n \<longrightarrow> \<not> key_less n name) \<and>
         (\<forall>(n, r) \<in> set pre. get_item_sort_key n \<noteq> get_item_sort_key name)))
   \<and> find_next_available_section
         [(''item_1'', ''ref_1''), (''item_1a'', ''ref_1a''), (''item_7'', ''ref_7'')] ''item_1''
       = Inr (Some ''ref_1a'')
   \<and> find_next_available_section
         [(''item_1'', ''ref_1''), (''item_1a'', ''ref_1a''), (''item_7'', ''ref_7'')] ''item_7''
       = Inr None"
proof -
  have none: "\<not> (\<exists>(n, r) \<in> set all_sections. key_less current n) \<longrightarrow>
      find_next_available_section all_sections current = Inr None"
    using resolver_none [of all_sections current] by (simp add: key_less_def)
  have some: "(\<exists>(n, r) \<in> set all_sections. key_less current n) \<longrightarrow>
      (\<exists>pre name ref post.
         all_sections = pre @ (name, ref) # post \<and>
         find_next_available_section all_sections current = Inr (Some ref) \<and>
         key_less current name \<and>
         (\<forall>(n, r) \<in> set all_sections. key_less current n \<longrightarrow> \<not> key_less n name) \<and>
         (\<forall>(n, r) \<in> set pre. get_item_sort_key n \<noteq> get_item_sort_key name))"
  proof
    assume "\<exists>(n, r) \<in> set all_sections. key_less current n"
    then have "\<exists>(n, r) \<in> set all_sections. get_item_sort_key current < get_item_sort_key n"
      by (simp add: key_less_def)
    from resolver_some [OF this] obtain pre name ref post where
      a: "all_sections = pre @ (name, ref) # post"
      and b: "find_next_available_section all_sections current = Inr (Some ref)"
      and c: "get_item_sort_key current < get_item_sort_key name"
      and d: "\<forall>(n, r) \<in> set all_sections.
              get_item_sort_key current < get_item_sort_key n \<longrightarrow>
              get_item_sort_key name \<le> get_item_sort_key n"
      and e: "\<forall>(n, r) \<in> set pre. get_item_sort_key n \<noteq> get_item_sort_key name"
      by blast
    from d have d': "\<forall>(n, r) \<in> set all_sections. key_less current n \<longrightarrow> \<not> key_less n name"
      by (auto simp: key_less_def)
    from a b c d' e show "\<exists>pre name ref post.
         all_sections = pre @ (name, ref) # post \<and>
         find_next_available_section all_sections current = Inr (Some ref) \<and>
         key_less current name \<and>
         (\<forall>(n, r) \<in> set all_sections. key_less current n \<longrightarrow> \<not> key_less n name) \<and>
         (\<forall>(n, r) \<in> set pre. get_item_sort_key n \<noteq> get_item_sort_key name)"
      unfolding key_less_def by blast
  qed
  have k: "get_item_sort_key ''item_1'' = (1, [])" "get_item_sort_key ''item_1a'' = (1, ''a'')"
    "get_item_sort_key ''item_7'' = (7, [])"
    by (simp_all add: sk_defs)
  have ex1: "find_next_available_section
         [(''item_1'', ''ref_1''), (''item_1a'', ''ref_1a''), (''item_7'', ''ref_7'')] ''item_1''
       = Inr (Some ''ref_1a'')"
    by (simp add: find_next_available_section_def k first_item_def)
  have ex2: "find_next_available_section
         [(''item_1'', ''ref_1''), (''item_1a'', ''ref_1a''), (''item_7'', ''ref_7'')] ''item_7''
       = Inr None"
    by (simp add: find_next_available_section_def k first_item_def)
  from none some ex1 ex2 show ?thesis by blast
qed

theorem boundary_resolver_nearest_witness:
  "key_less ''item_1a'' ''item_7'' \<and>
   find_next_available_section
     [(''item_9'', ''ref_9''), (''item_1'', ''ref_1''), (''item_7'', ''ref_7''), (''item_07'', ''ref_07'')]
     ''item_1a'' = Inr (Some ''ref_7'')
   \<and> find_next_available_section [(''item_1'', ''ref_1'')] ''item_1a'' = Inr None"
proof -
  let ?cat = "[(''item_9'', ''ref_9''), (''item_1'', ''ref_1''), (''item_7'', ''ref_7''), (''item_07'', ''ref_07'')]"
  have k: "get_item_sort_key ''item_1'' = (1, [])" "get_item_sort_key ''item_1a'' = (1, ''a'')"
    "get_item_sort_key ''item_7'' = (7, [])" "get_item_sort_key ''item_07'' = (7, [])"
    "get_item_sort_key ''item_9'' = (9, [])"
    by (simp_all add: sk_defs)
  have h1: "\<exists>(n, r) \<in> set ?cat. key_less ''item_1a'' n"
    by (simp add: key_less_def k)
  have h2: "\<not> (\<exists>(n, r) \<in> set [(''item_1'', ''ref_1'')]. key_less ''item_1a'' n)"
    by (simp add: key_less_def k)
  from h1 boundary_resolver_nearest [of ?cat "''item_1a''"] obtain pre name ref post where
    a: "?cat = pre @ (name, ref) # post"
    and b: "find_next_available_section ?cat ''item_1a'' = Inr (Some ref)"
    and c: "key_less ''item_1a'' name"
    and d: "\<forall>(n, r) \<in> set ?cat. key_less ''item_1a'' n \<longrightarrow> \<not> key_less n name"
    and e: "\<forall>(n, r) \<in> set pre. get_item_sort_key n \<noteq> get_item_sort_key name"
    by blast
  have "(name, ref) \<in> set ?cat"
    by (subst a) simp
  then have cases: "(name, ref) = (''item_9'', ''ref_9'') \<or> (name, ref) = (''item_1'', ''ref_1'') \<or>
     (name, ref) = (''item_7'', ''ref_7'') \<or> (name, ref) = (''item_07'', ''ref_07'')"
    by simp
  have "ref = ''ref_7''"
  proof -
    from c have n1: "name \<noteq> ''item_1''" by (auto simp: key_less_def k)
    from d have "\<not> key_less ''item_7'' name" by (simp add: key_less_def k)
    then have n9: "name \<noteq> ''item_9''" by (auto simp: key_less_def k)
    have n07: "name \<noteq> ''item_07''"
    proof
      assume n: "name = ''item_07''"
      with cases have r: "ref = ''ref_07''" by auto
      have "pre @ (name, ref) # post = ?cat" using a by simp
      with n r have "(''item_7'', ''ref_7'') \<in> set pre"
        by (auto simp: append_eq_Cons_conv Cons_eq_append_conv)
      with e n show False by (auto simp: k)
    qed
    from cases n1 n9 n07 show ?thesis by auto
  qed
  with b have r1: "find_next_available_section ?cat ''item_1a'' = Inr (Some ''ref_7'')" by simp
  have r2: "find_next_available_section [(''item_1'', ''ref_1'')] ''item_1a'' = Inr None"
    using h2 boundary_resolver_nearest [of "[(''item_1'', ''ref_1'')]" "''item_1a''"] by blast
  from r1 r2 show ?thesis by (simp add: key_less_def k)
qed




section \<open>Properties of the label normalizer\<close>



lemma is_word_lower_char: "is_word (lower_char c) = is_word c"
proof -
  have "\<forall>c. is_word (lower_char c) = is_word c" by code_simp
  then show ?thesis by blast
qed

lemma is_space_lower_char: "is_space (lower_char c) = is_space c"
proof -
  have "\<forall>c. is_space (lower_char c) = is_space c" by code_simp
  then show ?thesis by blast
qed














section \<open>Properties of the explicit classifier\<close>









declare str_nat.simps [simp del]

















section \<open>Properties of anchor discovery\<close>



















section \<open>Conditions that are not found\<close>

lemma or_else_None: "or_else None b = b"
  by (simp add: or_else_def)

lemma resolver_never_raises: "\<exists>r. find_next_available_section all_sections current = Inr r"
  unfolding resolver_unfold by (simp split: list.split)

text \<open>
  C9: when none of the lookups by \<open>id\<close> and by \<open>name\<close> finds a node for the identifier, the
  content extractor returns the empty string; when no key of the catalog comes after the
  target key the boundary resolver returns none; and the boundary resolver returns a value
  and not an exception for every catalog and target, its read of the first element being
  guarded. The lookups and the walk of the content extractor have no operation that raises.
\<close>

theorem not_found_is_empty:
  "(find_first (attr_is ''id'' target_id) soup = None \<and>
    find_first (attr_is_nocase ''id'' target_id) soup = None \<and>
    find_first (\<lambda>n. tag_name n = ''a'' \<and> attr_is ''name'' target_id n) soup = None \<and>
    find_first (\<lambda>n. tag_name n = ''a'' \<and> attr_is_nocase ''name'' target_id n) soup = None \<and>
    find_first (attr_is ''name'' target_id) soup = None \<and>
    find_first (attr_is_nocase ''name'' target_id) soup = None
    \<longrightarrow> find_section_content_advanced soup target_id next_target_id = [])
   \<and> (\<not> (\<exists>(n, r) \<in> set all_sections. key_less current n) \<longrightarrow>
        find_next_available_section all_sections current = Inr None)
   \<and> (\<exists>r. find_next_available_section all_sections current = Inr r)"
proof -
  have a: "find_first (attr_is ''id'' target_id) soup = None \<and>
    find_first (attr_is_nocase ''id'' target_id) soup = None \<and>
    find_first (\<lambda>n. tag_name n = ''a'' \<and> attr_is ''name'' target_id n) soup = None \<and>
    find_first (\<lambda>n. tag_name n = ''a'' \<and> attr_is_nocase ''name'' target_id n) soup = None \<and>
    find_first (attr_is ''name'' target_id) soup = None \<and>
    find_first (attr_is_nocase ''name'' target_id) soup = None
    \<longrightarrow> find_section_content_advanced soup target_id next_target_id = []"
    by (simp add: find_section_content_advanced_def resolve_target_def or_else_None)
  have b: "\<not> (\<exists>(n, r) \<in> set all_sections. key_less current n) \<longrightarrow>
        find_next_available_section all_sections current = Inr None"
    using resolver_none [of all_sections current] by (simp add: key_less_def)
  show ?thesis
    by (intro conjI; (rule a b resolver_never_raises))
qed

theorem not_found_is_empty_witness:
  "find_section_content_advanced
     (Tag ''[document]'' []
        [Tag ''div'' [(''id'', ''part1'')] [NavigableString ''Some text of the first part'']])
     ''missing'' (Some ''part1'') = []
   \<and> find_next_available_section [(''item_1'', ''part1'')] ''item_7'' = Inr None"
proof -
  let ?soup = "Tag ''[document]'' []
        [Tag ''div'' [(''id'', ''part1'')] [NavigableString ''Some text of the first part'']]"
  have h1: "find_first (attr_is ''id'' ''missing'') ?soup = None \<and>
    find_first (attr_is_nocase ''id'' ''missing'') ?soup = None \<and>
    find_first (\<lambda>n. tag_name n = ''a'' \<and> attr_is ''name'' ''missing'' n) ?soup = None \<and>
    find_first (\<lambda>n. tag_name n = ''a'' \<and> attr_is_nocase ''name'' ''missing'' n) ?soup = None \<and>
    find_first (attr_is ''name'' ''missing'') ?soup = None \<and>
    find_first (attr_is_nocase ''name'' ''missing'') ?soup = None"
    by (simp add: find_first_def find_all_def descendants_def is_tag_def tag_name_def attr_is_def
        attr_is_nocase_def get_attr_def get_attr_or_empty_def lower_def lower_char_def
        is_upper_az_def)
  have k: "get_item_sort_key ''item_1'' = (1, [])" "get_item_sort_key ''item_7'' = (7, [])"
    by (simp_all add: sk_defs)
  have h2: "\<not> (\<exists>(n, r) \<in> set [(''item_1'', ''part1'')]. key_less ''item_7'' n)"
    by (simp add: key_less_def k)
  from not_found_is_empty [of "''missing''" ?soup "Some ''part1''" "[(''item_1'', ''part1'')]" "''item_7''"]
    h1 h2
  show ?thesis by blast
qed

section \<open>The label of the result\<close>

lemma example_text:
  "get_text (Tag ''[document]'' []
       [Tag ''pre'' []
         [NavigableString ''Form 10-K. Item 1. Business. Item 1A. Risk Factors. Item 1B. None. Item 1C. Cybersecurity.'']])
   = ''Form 10-K. Item 1. Business. Item 1A. Risk Factors. Item 1B. None. Item 1C. Cybersecurity.''"
  by (simp add: get_text_def)

lemma example_starts:
  "section_starts ''Form 10-K. Item 1. Business. Item 1A. Risk Factors. Item 1B. None. Item 1C. Cybersecurity.''
   = [(''item_1'', 11, None), (''item_1a'', 29, None), (''item_1b'', 52, None), (''item_1c'', 67, None)]"
  by code_simp

lemma example_boundaries:
  "find_section_boundaries (Tag ''[document]'' []
       [Tag ''pre'' []
         [NavigableString ''Form 10-K. Item 1. Business. Item 1A. Risk Factors. Item 1B. None. Item 1C. Cybersecurity.'']])
   = [(''item_1'', 11, Some 29), (''item_1a'', 29, Some 52), (''item_1b'', 52, Some 67),
      (''item_1c'', 67, Some 90)]"
  unfolding find_section_boundaries_def find_section_boundaries_text_def Let_def
    example_text example_starts
  by code_simp

lemma example_fallback:
  "parse_10k_filing_xbrl (Tag ''[document]'' []
       [Tag ''pre'' []
         [NavigableString ''Form 10-K. Item 1. Business. Item 1A. Risk Factors. Item 1B. None. Item 1C. Cybersecurity.'']])
   = [(''item_1'', ''Item 1. Business.''), (''item_1a'', ''Item 1A. Risk Factors.''),
      (''item_1b'', ''Item 1B. None.''), (''item_1c'', ''Item 1C. Cybersecurity.'')]"
  unfolding parse_10k_filing_xbrl_def example_boundaries
  by code_simp

lemma example_anchors:
  "extract_target_anchors (Tag ''[document]'' []
       [Tag ''pre'' []
         [NavigableString ''Form 10-K. Item 1. Business. Item 1A. Risk Factors. Item 1B. None. Item 1C. Cybersecurity.'']])
   = ([], Tag ''[document]'' []
       [Tag ''pre'' []
         [NavigableString ''Form 10-K. Item 1. Business. Item 1A. Risk Factors. Item 1B. None. Item 1C. Cybersecurity.'']])"
  by code_simp

lemma gate_rejects_empty: "should_use_xbrl_fallback [] []"
  by (simp add: should_use_xbrl_fallback_def)

lemma gate_accepts_example:
  "\<not> should_use_xbrl_fallback
     [(''item_1'', ''Item 1. Business.''), (''item_1a'', ''Item 1A. Risk Factors.''),
      (''item_1b'', ''Item 1B. None.''), (''item_1c'', ''Item 1C. Cybersecurity.'')] []"
proof -
  let ?e = "[(''item_1'', ''Item 1. Business.''), (''item_1a'', ''Item 1A. Risk Factors.''),
      (''item_1b'', ''Item 1B. None.''), (''item_1c'', ''Item 1C. Cybersecurity.'')]"
  have fc: "found_count ?e = 4"
    by (simp add: found_count_def TARGET_SECTIONS_def)
  have wc: "\<not> (\<exists>(section, content) \<in> set ?e. word_count content > 30000)"
    by (simp add: word_count_def py_split_def is_space_def)
  show ?thesis
    unfolding gate_cases using fc wc by simp
qed

text \<open>
  C1 on the code: a document that is one preformatted block has no link and no header
  element, so the structural extraction is empty and the gate rejects it; the pattern
  fallback then finds four target sections, which replace the structural ones. The label is
  computed by asking the gate again about the sections of the fallback, which it accepts,
  and the result is labelled \<open>toc_anchor\<close> although the fallback produced it.
\<close>

theorem fallback_result_labelled_structural:
  "extract_target_anchors (Tag ''[document]'' []
       [Tag ''pre'' []
         [NavigableString ''Form 10-K. Item 1. Business. Item 1A. Risk Factors. Item 1B. None. Item 1C. Cybersecurity.'']])
   = ([], Tag ''[document]'' []
       [Tag ''pre'' []
         [NavigableString ''Form 10-K. Item 1. Business. Item 1A. Risk Factors. Item 1B. None. Item 1C. Cybersecurity.'']])
   \<and> should_use_xbrl_fallback [] []
   \<and> parse_10k_filing_xbrl (Tag ''[document]'' []
       [Tag ''pre'' []
         [NavigableString ''Form 10-K. Item 1. Business. Item 1A. Risk Factors. Item 1B. None. Item 1C. Cybersecurity.'']])
     = [(''item_1'', ''Item 1. Business.''), (''item_1a'', ''Item 1A. Risk Factors.''),
        (''item_1b'', ''Item 1B. None.''), (''item_1c'', ''Item 1C. Cybersecurity.'')]
   \<and> main ''https://www.sec.gov/x.htm'' ''2024-01-01T00:00:00''
       (Tag ''[document]'' []
         [Tag ''pre'' []
           [NavigableString ''Form 10-K. Item 1. Business. Item 1A. Risk Factors. Item 1B. None. Item 1C. Cybersecurity.'']])
     = Inr (Some \<lparr>extraction_method = ''toc_anchor'',
                   extraction_timestamp = ''2024-01-01T00:00:00'',
                   source_url = ''https://www.sec.gov/x.htm'',
                   sections =
                     [(''item_1'', ''Item 1. Business.''), (''item_1a'', ''Item 1A. Risk Factors.''),
                      (''item_1b'', ''Item 1B. None.''), (''item_1c'', ''Item 1C. Cybersecurity.'')]\<rparr>)"
proof -
  have m: "main ''https://www.sec.gov/x.htm'' ''2024-01-01T00:00:00''
       (Tag ''[document]'' []
         [Tag ''pre'' []
           [NavigableString ''Form 10-K. Item 1. Business. Item 1A. Risk Factors. Item 1B. None. Item 1C. Cybersecurity.'']])
     = Inr (Some \<lparr>extraction_method = ''toc_anchor'',
                   extraction_timestamp = ''2024-01-01T00:00:00'',
                   source_url = ''https://www.sec.gov/x.htm'',
                   sections =
                     [(''item_1'', ''Item 1. Business.''), (''item_1a'', ''Item 1A. Risk Factors.''),
                      (''item_1b'', ''Item 1B. None.''), (''item_1c'', ''Item 1C. Cybersecurity.'')]\<rparr>)"
    unfolding main_def Let_def example_anchors
    by (simp add: gate_rejects_empty gate_accepts_example example_fallback)
  show ?thesis
    by (intro conjI; (rule example_anchors gate_rejects_empty example_fallback m))
qed

section \<open>Start offsets of the pattern fallback\<close>

text \<open>
  C8 on the code: in the text \<open>Item 1. Business\<close> the first pattern of \<open>item_1\<close> matches at
  offset 0 and the header check accepts the context window of that match, yet the start
  offset recorded for \<open>item_1\<close> is 8, the match of the second pattern: offset 0 counts as
  false in the test that ends the loop over the patterns. In \<open>Item 1. Overview\<close>, where no
  other pattern matches, no boundary is recorded at all.
\<close>

theorem start_offset_zero_is_skipped:
  "(case map_of section_mapping ''item_1'' of
      None \<Rightarrow> False
    | Some patterns \<Rightarrow> finditer True (hd patterns) ''Item 1. Business'' = [(0, 6)])
   \<and> is_section_header
         (slice ''Item 1. Business'' (0 - 100) (min (length ''Item 1. Business'') (6 + 100)))
         (slice ''Item 1. Business'' 0 6)
   \<and> find_section_boundaries (Tag ''[document]'' [] [NavigableString ''Item 1. Business''])
       = [(''item_1'', 8, Some 16)]
   \<and> find_section_boundaries (Tag ''[document]'' [] [NavigableString ''Item 1. Overview'']) = []"
proof -
  have a: "(case map_of section_mapping ''item_1'' of
      None \<Rightarrow> False
    | Some patterns \<Rightarrow> finditer True (hd patterns) ''Item 1. Business'' = [(0, 6)])"
    by code_simp
  have b: "is_section_header
         (slice ''Item 1. Business'' (0 - 100) (min (length ''Item 1. Business'') (6 + 100)))
         (slice ''Item 1. Business'' 0 6)"
    by code_simp
  have c: "find_section_boundaries (Tag ''[document]'' [] [NavigableString ''Item 1. Business''])
       = [(''item_1'', 8, Some 16)]"
    by code_simp
  have d: "find_section_boundaries (Tag ''[document]'' [] [NavigableString ''Item 1. Overview'']) = []"
    by code_simp
  show ?thesis
    by (intro conjI; (rule a b c d))
qed


end
